theory Spec2Isabelle
  imports Main "HOL-Library.Word" "HOL-Library.Sublist"
begin

unbundle bit_operations_syntax

section \<open>The promote-shadow command of the admin tool\<close>

text \<open>
  The source is \<^verbatim>\<open>src/admin/promote_shadow_command.cc\<close>. The command reads a
  password, connects to a metadata server, registers the connection with the password, sends the
  "become master" request and then asks the server for its status.

  \<^verbatim>\<open>run\<close> talks to a terminal, to a server and to the error stream, throws exceptions
  and calls \<^verbatim>\<open>exit\<close>. In the model every one of these is a value: what the outside
  world answers is an \<open>environment\<close>, what \<^verbatim>\<open>run\<close> did to it is a \<open>state\<close>
  (the characters written to \<^verbatim>\<open>std::cerr\<close> and the calls made, in order), and
  the way \<^verbatim>\<open>run\<close> ended is an \<open>outcome\<close>.
\<close>

subsection \<open>Data\<close>

text \<open>A received packet body: \<^verbatim>\<open>std::vector<uint8_t>\<close>.\<close>

type_synonym MessageBuffer = "8 word list"

text \<open>
  \<^verbatim>\<open>WrongUsageException\<close> is thrown by \<^verbatim>\<open>run\<close> itself. Every other
  exception comes out of a collaborator (the connection, the registration, the deserializer) and
  passes through \<^verbatim>\<open>run\<close> untouched, since \<^verbatim>\<open>run\<close> has no handler.
\<close>

datatype exception = WrongUsageException string | Exception string

text \<open>
  How a call of \<^verbatim>\<open>run\<close> ends: it returns, it calls \<^verbatim>\<open>exit(n)\<close>, or an
  exception leaves it.
\<close>

datatype outcome = Returned | Exit int | Thrown exception

text \<open>The positional arguments of the command line, as \<^verbatim>\<open>Options\<close> holds them.\<close>

record Options =
  arguments :: "string list"

text \<open>
  \<^verbatim>\<open>options.argument(pos)\<close>. \<^verbatim>\<open>run\<close> calls it at positions 0 and 1 only,
  after it has checked that there are exactly two arguments.
\<close>

definition argument :: "Options \<Rightarrow> nat \<Rightarrow> string" where
  "argument options pos = arguments options ! pos"

text \<open>
  The two requests that \<^verbatim>\<open>run\<close> builds:
  \<^verbatim>\<open>cltoma::adminBecomeMaster::build()\<close> and
  \<^verbatim>\<open>cltoma::metadataserverStatus::build(messageId)\<close>.
\<close>

datatype request = cltoma_adminBecomeMaster | cltoma_metadataserverStatus "32 word"

text \<open>The packet type that \<^verbatim>\<open>sendAndReceive\<close> is told to wait for.\<close>

datatype packet_type = LIZ_MATOCL_ADMIN_BECOME_MASTER | LIZ_MATOCL_METADATASERVER_STATUS

text \<open>
  The declarations that \<^verbatim>\<open>run\<close> uses and whose definitions are in headers outside
  the source file. They are parameters of the model:
  the two constants, the function that turns a status code into its message, and
  \<^verbatim>\<open>matocl::metadataserverStatus::deserialize\<close>, which either throws or fills
  \<^verbatim>\<open>messageId\<close>, \<^verbatim>\<open>status\<close> and \<^verbatim>\<open>metadataVersion\<close>.

  The same header declares \<^verbatim>\<open>matocl::adminBecomeMaster::deserialize\<close>, which either
  throws or gives the status code that a "become master" answer carries. \<^verbatim>\<open>run\<close> does
  not call it; it is a parameter too, because it is what says whether the server accepted or
  rejected the "become master" request.
\<close>

record declarations =
  STATUS_OK :: "8 word"
  LIZ_METADATASERVER_STATUS_MASTER :: "8 word"
  mfsstrerr :: "8 word \<Rightarrow> string"
  deserialize :: "MessageBuffer \<Rightarrow> exception + (32 word \<times> 8 word \<times> 64 word)"
  adminBecomeMaster_deserialize :: "MessageBuffer \<Rightarrow> exception + 8 word"

text \<open>
  What the outside world answers.
  \<^item> \<open>get_password\<close>: the password typed by the operator.
  \<^item> \<open>ServerConnection\<close>: the constructor of the connection, given host and port;
    \<open>Some e\<close> when it throws \<open>e\<close>, \<open>None\<close> when the connection is open.
  \<^item> \<open>register_master_connection\<close>: the registration with the given password; it throws
    or returns a status code.
  \<^item> \<open>sendAndReceive\<close>: one exchange on the connection; it throws or returns the body of
    the answer. \<^verbatim>\<open>run\<close> sends each request at most once, so the answer is a function
    of the request.
\<close>

record environment =
  get_password :: string
  ServerConnection :: "string \<Rightarrow> string \<Rightarrow> exception option"
  register_master_connection :: "string \<Rightarrow> exception + 8 word"
  sendAndReceive :: "request \<Rightarrow> packet_type \<Rightarrow> exception + MessageBuffer"

text \<open>The calls that \<^verbatim>\<open>run\<close> makes to the outside world, with their arguments.\<close>

datatype call =
  Call_get_password
  | Call_ServerConnection string string
  | Call_register_master_connection string
  | Call_sendAndReceive request packet_type

record state =
  cerr :: string
  calls :: "call list"

definition initial :: state where
  "initial = \<lparr>cerr = [], calls = []\<rparr>"

text \<open>\<^verbatim>\<open>std::endl\<close> writes a newline.\<close>

definition endl :: string where
  "endl = [CHR 0x0A]"

text \<open>\<^verbatim>\<open>std::cerr << msg << std::endl\<close>\<close>

definition cerr_line :: "string \<Rightarrow> state \<Rightarrow> state" where
  "cerr_line msg s = s\<lparr>cerr := cerr s @ msg @ endl\<rparr>"

definition called :: "call \<Rightarrow> state \<Rightarrow> state" where
  "called c s = s\<lparr>calls := calls s @ [c]\<rparr>"

subsection \<open>The command\<close>

text \<open>\<^verbatim>\<open>PromoteShadowCommand::name\<close>\<close>

definition name :: string where
  "name = ''promote-shadow''"

text \<open>
  \<^verbatim>\<open>PromoteShadowCommand::supportedOptions\<close>: a list of pairs of an option and
  its description, returned empty.
\<close>

definition supportedOptions :: "(string \<times> string) list" where
  "supportedOptions = []"

text \<open>
  \<^verbatim>\<open>PromoteShadowCommand::run\<close>, statement by statement. The variable
  \<^verbatim>\<open>status\<close> is assigned by the registration and next by the deserializer of the
  status answer; \<^verbatim>\<open>becomeMasterResponse\<close> is bound and never read.
\<close>

definition run :: "declarations \<Rightarrow> environment \<Rightarrow> Options \<Rightarrow> outcome \<times> state" where
  "run d env options =
    (if length (arguments options) \<noteq> 2 then
       (Thrown (WrongUsageException (''Expected <shadow ip> and <shadow port>'' @ '' for '' @ name)),
        initial)
     else
       let password = get_password env;
           s1 = called Call_get_password initial;
           s2 = called (Call_ServerConnection (argument options 0) (argument options 1)) s1
       in
       case ServerConnection env (argument options 0) (argument options 1) of
         Some e \<Rightarrow> (Thrown e, s2)
       | None \<Rightarrow>
         let s3 = called (Call_register_master_connection password) s2 in
         case register_master_connection env password of
           Inl e \<Rightarrow> (Thrown e, s3)
         | Inr status \<Rightarrow>
           if status \<noteq> STATUS_OK d then
             (Exit 1, cerr_line ''Wrong password'' s3)
           else
             let s4 = called (Call_sendAndReceive cltoma_adminBecomeMaster
                                LIZ_MATOCL_ADMIN_BECOME_MASTER) s3 in
             case sendAndReceive env cltoma_adminBecomeMaster LIZ_MATOCL_ADMIN_BECOME_MASTER of
               Inl e \<Rightarrow> (Thrown e, s4)
             | Inr becomeMasterResponse \<Rightarrow>
               let s5 = cerr_line (mfsstrerr d status) s4 in
               if status \<noteq> STATUS_OK d then
                 (Exit 1, s5)
               else
                 let s6 = called (Call_sendAndReceive (cltoma_metadataserverStatus 1)
                                    LIZ_MATOCL_METADATASERVER_STATUS) s5 in
                 case sendAndReceive env (cltoma_metadataserverStatus 1)
                        LIZ_MATOCL_METADATASERVER_STATUS of
                   Inl e \<Rightarrow> (Thrown e, s6)
                 | Inr response \<Rightarrow>
                   case deserialize d response of
                     Inl e \<Rightarrow> (Thrown e, s6)
                   | Inr (messageId, status', metadataVersion) \<Rightarrow>
                     if status' \<noteq> LIZ_METADATASERVER_STATUS_MASTER d then
                       (Exit 1,
                        cerr_line ''Metadata server promotion failed for unknown reason'' s6)
                     else
                       (Returned, s6))"

text \<open>The number of exchanges made with \<^verbatim>\<open>sendAndReceive\<close>.\<close>

fun is_exchange :: "call \<Rightarrow> bool" where
  "is_exchange (Call_sendAndReceive r t) = True"
| "is_exchange _ = False"

definition exchanges :: "state \<Rightarrow> call list" where
  "exchanges s = filter is_exchange (calls s)"

text \<open>
  The state in which \<^verbatim>\<open>run\<close> is when the status answer has arrived, on the path where
  the connection opened and the registration returned \<^verbatim>\<open>STATUS_OK\<close>: one line on the
  error stream and five calls.
\<close>

definition before_status_answer :: "declarations \<Rightarrow> environment \<Rightarrow> Options \<Rightarrow> state" where
  "before_status_answer d env options =
    \<lparr>cerr = mfsstrerr d (STATUS_OK d) @ endl,
     calls = [Call_get_password,
              Call_ServerConnection (argument options 0) (argument options 1),
              Call_register_master_connection (get_password env),
              Call_sendAndReceive cltoma_adminBecomeMaster LIZ_MATOCL_ADMIN_BECOME_MASTER,
              Call_sendAndReceive (cltoma_metadataserverStatus 1)
                LIZ_MATOCL_METADATASERVER_STATUS]\<rparr>"

subsection \<open>Concrete declarations and servers\<close>

text \<open>
  The theorems below hold for every value of the declarations. To run the command on concrete
  inputs the parameters need values; the ones here are samples: status code 0 for success
  with the message \<open>OK\<close>, role 1 for a master, a status answer laid out as its three fields
  in order, most significant byte first (4 bytes, 1 byte, 8 bytes), and a "become master" answer
  of one byte, its status code.
\<close>

definition be_word :: "8 word list \<Rightarrow> 'a::len word" where
  "be_word bs = foldl (\<lambda>acc b. push_bit 8 acc OR ucast b) 0 bs"

definition sample_deserialize :: "MessageBuffer \<Rightarrow> exception + (32 word \<times> 8 word \<times> 64 word)" where
  "sample_deserialize buffer =
    (if length buffer \<noteq> 13 then Inl (Exception ''IncorrectDeserializationException'')
     else Inr (be_word (take 4 buffer), buffer ! 4, be_word (drop 5 buffer)))"

definition sample_adminBecomeMaster_deserialize :: "MessageBuffer \<Rightarrow> exception + 8 word" where
  "sample_adminBecomeMaster_deserialize buffer =
    (case buffer of
       [status] \<Rightarrow> Inr status
     | _ \<Rightarrow> Inl (Exception ''IncorrectDeserializationException''))"

definition sample_mfsstrerr :: "8 word \<Rightarrow> string" where
  "sample_mfsstrerr status =
    (if status = 0 then ''OK''
     else if status = 1 then ''Operation not permitted''
     else ''Unknown MFS error'')"

definition sample_declarations :: declarations where
  "sample_declarations =
    \<lparr>STATUS_OK = 0, LIZ_METADATASERVER_STATUS_MASTER = 1,
     mfsstrerr = sample_mfsstrerr, deserialize = sample_deserialize,
     adminBecomeMaster_deserialize = sample_adminBecomeMaster_deserialize\<rparr>"

text \<open>
  A server that answers the registration with \<open>auth\<close>, the "become master" request with the
  body \<open>promoted\<close> and the status request with the body \<open>status_body\<close>.
\<close>

definition sample_server :: "8 word \<Rightarrow> MessageBuffer \<Rightarrow> MessageBuffer \<Rightarrow> environment" where
  "sample_server auth promoted status_body =
    \<lparr>get_password = ''secret'',
     ServerConnection = (\<lambda>host port. None),
     register_master_connection = (\<lambda>password. Inr auth),
     sendAndReceive = (\<lambda>r t. case r of
         cltoma_adminBecomeMaster \<Rightarrow> Inr promoted
       | cltoma_metadataserverStatus messageId \<Rightarrow> Inr status_body)\<rparr>"

definition sample_options :: Options where
  "sample_options = \<lparr>arguments = [''10.0.0.5'', ''9420'']\<rparr>"

text \<open>
  "Become master" answers: one status byte, success and "operation not permitted".
\<close>

definition promoted_ok :: MessageBuffer where
  "promoted_ok = [0]"

definition promoted_rejected :: MessageBuffer where
  "promoted_rejected = [1]"

text \<open>Status answers: identifier, role, metadata version.\<close>

definition status_master_id1 :: MessageBuffer where
  "status_master_id1 = [0, 0, 0, 1,  1,  0, 0, 0, 0, 0, 0, 0, 42]"

definition status_master_id2 :: MessageBuffer where
  "status_master_id2 = [0, 0, 0, 2,  1,  0, 0, 0, 0, 0, 0, 0, 43]"

definition status_shadow_id1 :: MessageBuffer where
  "status_shadow_id1 = [0, 0, 0, 1,  2,  0, 0, 0, 0, 0, 0, 0, 42]"

section \<open>Properties\<close>

subsection \<open>Evaluation\<close>

lemmas run_unfold = run_def Let_def called_def cerr_line_def initial_def

lemmas sample_unfold = sample_declarations_def sample_server_def sample_options_def argument_def
  sample_deserialize_def sample_mfsstrerr_def be_word_def name_def endl_def
  promoted_ok_def promoted_rejected_def status_master_id1_def status_master_id2_def
  status_shadow_id1_def

lemma deserialize_master_id1: "sample_deserialize status_master_id1 = Inr (1, 1, 42)"
  by (simp add: sample_deserialize_def status_master_id1_def be_word_def)

lemma deserialize_master_id2: "sample_deserialize status_master_id2 = Inr (2, 1, 43)"
  by (simp add: sample_deserialize_def status_master_id2_def be_word_def)

lemma deserialize_shadow_id1: "sample_deserialize status_shadow_id1 = Inr (1, 2, 42)"
  by (simp add: sample_deserialize_def status_shadow_id1_def be_word_def)

text \<open>
  The two sample "become master" answers: the first carries the status of success, the second
  does not.
\<close>

lemma promoted_ok_status:
  "adminBecomeMaster_deserialize sample_declarations promoted_ok
     = Inr (STATUS_OK sample_declarations)"
  by (simp add: sample_declarations_def sample_adminBecomeMaster_deserialize_def promoted_ok_def)

lemma promoted_rejected_status:
  "adminBecomeMaster_deserialize sample_declarations promoted_rejected = Inr 1
   \<and> 1 \<noteq> STATUS_OK sample_declarations"
  by (simp add: sample_declarations_def sample_adminBecomeMaster_deserialize_def
      promoted_rejected_def)

text \<open>
  Once the status answer has been deserialized, the role in it decides between the two ways
  \<^verbatim>\<open>run\<close> can end.
\<close>

lemma run_status_answer:
  assumes "length (arguments options) = 2"
    and "ServerConnection env (argument options 0) (argument options 1) = None"
    and "register_master_connection env (get_password env) = Inr (STATUS_OK d)"
    and "sendAndReceive env cltoma_adminBecomeMaster LIZ_MATOCL_ADMIN_BECOME_MASTER
           = Inr becomeMasterResponse"
    and "sendAndReceive env (cltoma_metadataserverStatus 1) LIZ_MATOCL_METADATASERVER_STATUS
           = Inr response"
    and "deserialize d response = Inr (messageId, role, metadataVersion)"
  shows "run d env options =
    (if role \<noteq> LIZ_METADATASERVER_STATUS_MASTER d
     then (Exit 1, cerr_line ''Metadata server promotion failed for unknown reason''
                     (before_status_answer d env options))
     else (Returned, before_status_answer d env options))"
  using assms by (simp add: run_unfold before_status_answer_def)

text \<open>
  The body of the "become master" answer has no effect on \<^verbatim>\<open>run\<close>: two servers that
  differ in it alone give the same run.
\<close>

lemma run_sample_server_ignores_promoted:
  "run d (sample_server auth promoted status_body) options =
   run d (sample_server auth promoted' status_body) options"
  by (simp add: run_def Let_def sample_server_def)

text \<open>Whenever \<^verbatim>\<open>run\<close> ends in \<^verbatim>\<open>exit\<close>, the status is 1.\<close>

lemma run_exit_status:
  assumes "fst (run d env options) = Exit n"
  shows "n = 1"
  using assms
  by (simp add: run_def Let_def split: if_splits option.splits sum.splits prod.splits)

subsection \<open>When the "become master" request is rejected\<close>

text \<open>
  Claim C1 says that after a "become master" answer with a status other than OK the status request
  is never sent, so that one exchange takes place after the registration. Here the server
  accepts the password, rejects the "become master" request with status 1 and reports the role
  of a master: \<^verbatim>\<open>run\<close> makes both exchanges.
\<close>

theorem promotion_rejected_status_query_still_sent:
  "exchanges (snd (run sample_declarations
      (sample_server 0 promoted_rejected status_master_id1) sample_options)) =
   [Call_sendAndReceive cltoma_adminBecomeMaster LIZ_MATOCL_ADMIN_BECOME_MASTER,
    Call_sendAndReceive (cltoma_metadataserverStatus 1) LIZ_MATOCL_METADATASERVER_STATUS]"
  by (simp add: run_unfold sample_unfold exchanges_def)

text \<open>
  Claim C5 says that the reason carried by a rejected "become master" answer is printed to the
  error stream. With the same server as before, the answer carries status 1, whose message is
  \<open>Operation not permitted\<close>; the error stream holds the message of the registration's status,
  \<open>OK\<close>, and nothing else.
\<close>

theorem promotion_rejected_prints_ok:
  "cerr (snd (run sample_declarations
      (sample_server 0 promoted_rejected status_master_id1) sample_options)) = ''OK'' @ endl
   \<and> mfsstrerr sample_declarations 1 = ''Operation not permitted''"
  by (simp add: run_unfold sample_unfold)

text \<open>
  Claim C9 says that every failure after the arguments have been read, a rejected "become master"
  request among them, ends the process with exit status 1. With the same server as before
  \<^verbatim>\<open>run\<close> returns.
\<close>

theorem promotion_rejected_returns:
  "fst (run sample_declarations
      (sample_server 0 promoted_rejected status_master_id1) sample_options) = Returned"
  by (simp add: run_unfold sample_unfold)

subsection \<open>Rejected password\<close>

text \<open>
  Claim C4: when the registration returns a status other than \<^verbatim>\<open>STATUS_OK\<close>,
  \<^verbatim>\<open>run\<close> writes the line \<open>Wrong password\<close> to the error stream and calls
  \<^verbatim>\<open>exit(1)\<close>, having read the password, opened the connection and registered, and
  having made no exchange with \<^verbatim>\<open>sendAndReceive\<close>: neither the "become master" request
  nor the status request is sent.
\<close>

theorem wrong_password_exits:
  assumes "length (arguments options) = 2"
    and "ServerConnection env (argument options 0) (argument options 1) = None"
    and "register_master_connection env (get_password env) = Inr status"
    and "status \<noteq> STATUS_OK d"
  shows "run d env options =
    (Exit 1,
     \<lparr>cerr = ''Wrong password'' @ endl,
      calls = [Call_get_password,
               Call_ServerConnection (argument options 0) (argument options 1),
               Call_register_master_connection (get_password env)]\<rparr>)
    \<and> exchanges (snd (run d env options)) = []"
  using assms by (simp add: run_unfold exchanges_def)

theorem wrong_password_exits_witness:
  "length (arguments sample_options) = 2
   \<and> ServerConnection (sample_server 1 promoted_ok status_master_id1)
        (argument sample_options 0) (argument sample_options 1) = None
   \<and> register_master_connection (sample_server 1 promoted_ok status_master_id1)
        (get_password (sample_server 1 promoted_ok status_master_id1)) = Inr 1
   \<and> 1 \<noteq> STATUS_OK sample_declarations
   \<and> run sample_declarations (sample_server 1 promoted_ok status_master_id1) sample_options =
       (Exit 1,
        \<lparr>cerr = ''Wrong password'' @ endl,
         calls = [Call_get_password,
                  Call_ServerConnection (argument sample_options 0) (argument sample_options 1),
                  Call_register_master_connection
                    (get_password (sample_server 1 promoted_ok status_master_id1))]\<rparr>)
   \<and> exchanges (snd (run sample_declarations (sample_server 1 promoted_ok status_master_id1)
        sample_options)) = []"
proof -
  let ?env = "sample_server 1 promoted_ok status_master_id1"
  have h1: "length (arguments sample_options) = 2"
    by (simp add: sample_options_def)
  have h2: "ServerConnection ?env (argument sample_options 0) (argument sample_options 1) = None"
    by (simp add: sample_server_def)
  have h3: "register_master_connection ?env (get_password ?env) = Inr 1"
    by (simp add: sample_server_def)
  have h4: "1 \<noteq> STATUS_OK sample_declarations"
    by (simp add: sample_declarations_def)
  from wrong_password_exits [OF h1 h2 h3 h4] h1 h2 h3 h4
  show ?thesis by blast
qed

subsection \<open>The status answer\<close>

text \<open>
  Claim C2: when the registration returned \<^verbatim>\<open>STATUS_OK\<close>, the "become master" exchange
  returned an answer and the status answer reports a role other than
  \<^verbatim>\<open>LIZ_METADATASERVER_STATUS_MASTER\<close>, \<^verbatim>\<open>run\<close> calls \<^verbatim>\<open>exit(1)\<close>.
  The error stream then holds the message of \<^verbatim>\<open>STATUS_OK\<close> and the line
  \<open>Metadata server promotion failed for unknown reason\<close>, so it ends with
  \<open>promotion failed for unknown reason\<close> and a newline. Whatever the "become master" answer
  holds, an OK status included, the result is the same.
\<close>

theorem verification_mismatch_fails:
  assumes "length (arguments options) = 2"
    and "ServerConnection env (argument options 0) (argument options 1) = None"
    and "register_master_connection env (get_password env) = Inr (STATUS_OK d)"
    and "sendAndReceive env cltoma_adminBecomeMaster LIZ_MATOCL_ADMIN_BECOME_MASTER
           = Inr becomeMasterResponse"
    and "sendAndReceive env (cltoma_metadataserverStatus 1) LIZ_MATOCL_METADATASERVER_STATUS
           = Inr response"
    and "deserialize d response = Inr (messageId, role, metadataVersion)"
    and "role \<noteq> LIZ_METADATASERVER_STATUS_MASTER d"
  shows "fst (run d env options) = Exit 1
    \<and> cerr (snd (run d env options))
        = mfsstrerr d (STATUS_OK d) @ endl
          @ ''Metadata server promotion failed for unknown reason'' @ endl
    \<and> suffix (''promotion failed for unknown reason'' @ endl) (cerr (snd (run d env options)))"
proof -
  have r: "run d env options =
    (Exit 1, cerr_line ''Metadata server promotion failed for unknown reason''
               (before_status_answer d env options))"
    using run_status_answer [OF assms(1-6)] assms(7) by simp
  have c: "cerr (snd (run d env options))
        = (mfsstrerr d (STATUS_OK d) @ endl @ ''Metadata server '')
          @ (''promotion failed for unknown reason'' @ endl)"
    by (simp add: r cerr_line_def before_status_answer_def)
  have "suffix (''promotion failed for unknown reason'' @ endl) (cerr (snd (run d env options)))"
    unfolding c by (rule suffix_appendI) simp
  with r c show ?thesis by simp
qed

theorem verification_mismatch_fails_witness:
  "length (arguments sample_options) = 2
   \<and> ServerConnection (sample_server 0 promoted_ok status_shadow_id1)
        (argument sample_options 0) (argument sample_options 1) = None
   \<and> register_master_connection (sample_server 0 promoted_ok status_shadow_id1)
        (get_password (sample_server 0 promoted_ok status_shadow_id1))
        = Inr (STATUS_OK sample_declarations)
   \<and> sendAndReceive (sample_server 0 promoted_ok status_shadow_id1)
        cltoma_adminBecomeMaster LIZ_MATOCL_ADMIN_BECOME_MASTER = Inr promoted_ok
   \<and> sendAndReceive (sample_server 0 promoted_ok status_shadow_id1)
        (cltoma_metadataserverStatus 1) LIZ_MATOCL_METADATASERVER_STATUS = Inr status_shadow_id1
   \<and> deserialize sample_declarations status_shadow_id1 = Inr (1, 2, 42)
   \<and> 2 \<noteq> LIZ_METADATASERVER_STATUS_MASTER sample_declarations
   \<and> fst (run sample_declarations (sample_server 0 promoted_ok status_shadow_id1) sample_options)
        = Exit 1
   \<and> cerr (snd (run sample_declarations (sample_server 0 promoted_ok status_shadow_id1)
        sample_options))
        = ''OK'' @ endl @ ''Metadata server promotion failed for unknown reason'' @ endl
   \<and> suffix (''promotion failed for unknown reason'' @ endl)
        (cerr (snd (run sample_declarations (sample_server 0 promoted_ok status_shadow_id1)
           sample_options)))"
proof -
  let ?env = "sample_server 0 promoted_ok status_shadow_id1"
  have h1: "length (arguments sample_options) = 2"
    by (simp add: sample_options_def)
  have h2: "ServerConnection ?env (argument sample_options 0) (argument sample_options 1) = None"
    by (simp add: sample_server_def)
  have h3: "register_master_connection ?env (get_password ?env)
      = Inr (STATUS_OK sample_declarations)"
    by (simp add: sample_server_def sample_declarations_def)
  have h4: "sendAndReceive ?env cltoma_adminBecomeMaster LIZ_MATOCL_ADMIN_BECOME_MASTER
      = Inr promoted_ok"
    by (simp add: sample_server_def)
  have h5: "sendAndReceive ?env (cltoma_metadataserverStatus 1) LIZ_MATOCL_METADATASERVER_STATUS
      = Inr status_shadow_id1"
    by (simp add: sample_server_def)
  have h6: "deserialize sample_declarations status_shadow_id1 = Inr (1, 2, 42)"
    by (simp add: sample_declarations_def deserialize_shadow_id1)
  have h7: "2 \<noteq> LIZ_METADATASERVER_STATUS_MASTER sample_declarations"
    by (simp add: sample_declarations_def)
  have m: "mfsstrerr sample_declarations (STATUS_OK sample_declarations) = ''OK''"
    by (simp add: sample_declarations_def sample_mfsstrerr_def)
  note t = verification_mismatch_fails [OF h1 h2 h3 h4 h5 h6 h7, unfolded m]
  from t h1 h2 h3 h4 h5 h6 h7 show ?thesis by blast
qed

text \<open>
  Claim C3 says that a run with two arguments, an accepted password, an accepted "become master"
  request and the role of a master in the status answer succeeds and writes nothing to the error
  stream. On the sample server that does all this (its "become master" answer carries
  \<^verbatim>\<open>STATUS_OK\<close>) \<^verbatim>\<open>run\<close> returns, and the error stream is not empty.
\<close>

theorem success_writes_to_cerr:
  "length (arguments sample_options) = 2
   \<and> register_master_connection (sample_server 0 promoted_ok status_master_id1)
        (get_password (sample_server 0 promoted_ok status_master_id1))
        = Inr (STATUS_OK sample_declarations)
   \<and> sendAndReceive (sample_server 0 promoted_ok status_master_id1)
        cltoma_adminBecomeMaster LIZ_MATOCL_ADMIN_BECOME_MASTER = Inr promoted_ok
   \<and> adminBecomeMaster_deserialize sample_declarations promoted_ok
        = Inr (STATUS_OK sample_declarations)
   \<and> sendAndReceive (sample_server 0 promoted_ok status_master_id1)
        (cltoma_metadataserverStatus 1) LIZ_MATOCL_METADATASERVER_STATUS = Inr status_master_id1
   \<and> deserialize sample_declarations status_master_id1
        = Inr (1, LIZ_METADATASERVER_STATUS_MASTER sample_declarations, 42)
   \<and> fst (run sample_declarations (sample_server 0 promoted_ok status_master_id1) sample_options)
        = Returned
   \<and> cerr (snd (run sample_declarations (sample_server 0 promoted_ok status_master_id1)
        sample_options)) \<noteq> []"
  by (simp add: run_unfold sample_unfold sample_adminBecomeMaster_deserialize_def)

text \<open>
  Claim C3, amended: a run with two arguments in which the registration returns
  \<^verbatim>\<open>STATUS_OK\<close>, the "become master" answer carries \<^verbatim>\<open>STATUS_OK\<close> and the
  status answer reports the role \<^verbatim>\<open>LIZ_METADATASERVER_STATUS_MASTER\<close> succeeds:
  \<^verbatim>\<open>run\<close> returns normally, without a call of \<^verbatim>\<open>exit\<close> and without an exception, so
  that the process ends with the exit code of success, 0. What it writes to the error stream is
  one line, the message of \<^verbatim>\<open>STATUS_OK\<close>, and nothing else.
\<close>

theorem verified_master_succeeds:
  assumes "length (arguments options) = 2"
    and "ServerConnection env (argument options 0) (argument options 1) = None"
    and "register_master_connection env (get_password env) = Inr (STATUS_OK d)"
    and "sendAndReceive env cltoma_adminBecomeMaster LIZ_MATOCL_ADMIN_BECOME_MASTER
           = Inr becomeMasterResponse"
    and "adminBecomeMaster_deserialize d becomeMasterResponse = Inr (STATUS_OK d)"
    and "sendAndReceive env (cltoma_metadataserverStatus 1) LIZ_MATOCL_METADATASERVER_STATUS
           = Inr response"
    and "deserialize d response
           = Inr (messageId, LIZ_METADATASERVER_STATUS_MASTER d, metadataVersion)"
  shows "fst (run d env options) = Returned
    \<and> cerr (snd (run d env options)) = mfsstrerr d (STATUS_OK d) @ endl"
  using run_status_answer [OF assms(1-4) assms(6-7)] by (simp add: before_status_answer_def)

theorem verified_master_succeeds_witness:
  "length (arguments sample_options) = 2
   \<and> ServerConnection (sample_server 0 promoted_ok status_master_id1)
        (argument sample_options 0) (argument sample_options 1) = None
   \<and> register_master_connection (sample_server 0 promoted_ok status_master_id1)
        (get_password (sample_server 0 promoted_ok status_master_id1))
        = Inr (STATUS_OK sample_declarations)
   \<and> sendAndReceive (sample_server 0 promoted_ok status_master_id1)
        cltoma_adminBecomeMaster LIZ_MATOCL_ADMIN_BECOME_MASTER = Inr promoted_ok
   \<and> adminBecomeMaster_deserialize sample_declarations promoted_ok
        = Inr (STATUS_OK sample_declarations)
   \<and> sendAndReceive (sample_server 0 promoted_ok status_master_id1)
        (cltoma_metadataserverStatus 1) LIZ_MATOCL_METADATASERVER_STATUS = Inr status_master_id1
   \<and> deserialize sample_declarations status_master_id1
        = Inr (1, LIZ_METADATASERVER_STATUS_MASTER sample_declarations, 42)
   \<and> fst (run sample_declarations (sample_server 0 promoted_ok status_master_id1) sample_options)
        = Returned
   \<and> cerr (snd (run sample_declarations (sample_server 0 promoted_ok status_master_id1)
        sample_options)) = ''OK'' @ endl"
proof -
  let ?env = "sample_server 0 promoted_ok status_master_id1"
  have h1: "length (arguments sample_options) = 2"
    by (simp add: sample_options_def)
  have h2: "ServerConnection ?env (argument sample_options 0) (argument sample_options 1) = None"
    by (simp add: sample_server_def)
  have h3: "register_master_connection ?env (get_password ?env)
      = Inr (STATUS_OK sample_declarations)"
    by (simp add: sample_server_def sample_declarations_def)
  have h4: "sendAndReceive ?env cltoma_adminBecomeMaster LIZ_MATOCL_ADMIN_BECOME_MASTER
      = Inr promoted_ok"
    by (simp add: sample_server_def)
  have h5: "sendAndReceive ?env (cltoma_metadataserverStatus 1) LIZ_MATOCL_METADATASERVER_STATUS
      = Inr status_master_id1"
    by (simp add: sample_server_def)
  have h6: "deserialize sample_declarations status_master_id1
      = Inr (1, LIZ_METADATASERVER_STATUS_MASTER sample_declarations, 42)"
    by (simp add: sample_declarations_def deserialize_master_id1)
  have h7: "adminBecomeMaster_deserialize sample_declarations promoted_ok
      = Inr (STATUS_OK sample_declarations)"
    by (simp add: sample_declarations_def sample_adminBecomeMaster_deserialize_def
        promoted_ok_def)
  have m: "mfsstrerr sample_declarations (STATUS_OK sample_declarations) = ''OK''"
    by (simp add: sample_declarations_def sample_mfsstrerr_def)
  note t = verified_master_succeeds [OF h1 h2 h3 h4 h7 h5 h6, unfolded m]
  from t h1 h2 h3 h4 h5 h6 h7 show ?thesis by blast
qed

text \<open>
  Claim C6 says that a status answer whose identifier differs from the identifier of the
  request, 1, is not accepted. The sample server here answers the request with identifier 1 by
  an answer with identifier 2 and the role of a master, and \<^verbatim>\<open>run\<close> returns as it does
  for a matching identifier.
\<close>

theorem wrong_identifier_accepted:
  "sendAndReceive (sample_server 0 promoted_ok status_master_id2)
      (cltoma_metadataserverStatus 1) LIZ_MATOCL_METADATASERVER_STATUS = Inr status_master_id2
   \<and> deserialize sample_declarations status_master_id2
        = Inr (2, LIZ_METADATASERVER_STATUS_MASTER sample_declarations, 43)
   \<and> (2 :: 32 word) \<noteq> 1
   \<and> run sample_declarations (sample_server 0 promoted_ok status_master_id2) sample_options
        = (Returned,
           before_status_answer sample_declarations
             (sample_server 0 promoted_ok status_master_id2) sample_options)"
  by (simp add: run_unfold sample_unfold before_status_answer_def)

text \<open>
  Claim C6, amended: in a run that receives a status answer, the status request was sent with
  identifier 1, and the role in the answer alone decides the outcome: \<^verbatim>\<open>run\<close> returns
  when the role is \<^verbatim>\<open>LIZ_METADATASERVER_STATUS_MASTER\<close> and calls \<^verbatim>\<open>exit(1)\<close>
  otherwise, whatever identifier the answer carries.
\<close>

theorem role_alone_decides:
  assumes "length (arguments options) = 2"
    and "ServerConnection env (argument options 0) (argument options 1) = None"
    and "register_master_connection env (get_password env) = Inr (STATUS_OK d)"
    and "sendAndReceive env cltoma_adminBecomeMaster LIZ_MATOCL_ADMIN_BECOME_MASTER
           = Inr becomeMasterResponse"
    and "sendAndReceive env (cltoma_metadataserverStatus 1) LIZ_MATOCL_METADATASERVER_STATUS
           = Inr response"
    and "deserialize d response = Inr (messageId, role, metadataVersion)"
  shows "last (exchanges (snd (run d env options)))
           = Call_sendAndReceive (cltoma_metadataserverStatus 1) LIZ_MATOCL_METADATASERVER_STATUS
    \<and> fst (run d env options)
           = (if role = LIZ_METADATASERVER_STATUS_MASTER d then Returned else Exit 1)"
  using run_status_answer [OF assms]
  by (simp add: before_status_answer_def exchanges_def cerr_line_def)

theorem role_alone_decides_witness:
  "length (arguments sample_options) = 2
   \<and> ServerConnection (sample_server 0 promoted_ok status_master_id2)
        (argument sample_options 0) (argument sample_options 1) = None
   \<and> register_master_connection (sample_server 0 promoted_ok status_master_id2)
        (get_password (sample_server 0 promoted_ok status_master_id2))
        = Inr (STATUS_OK sample_declarations)
   \<and> sendAndReceive (sample_server 0 promoted_ok status_master_id2)
        cltoma_adminBecomeMaster LIZ_MATOCL_ADMIN_BECOME_MASTER = Inr promoted_ok
   \<and> sendAndReceive (sample_server 0 promoted_ok status_master_id2)
        (cltoma_metadataserverStatus 1) LIZ_MATOCL_METADATASERVER_STATUS = Inr status_master_id2
   \<and> deserialize sample_declarations status_master_id2 = Inr (2, 1, 43)
   \<and> last (exchanges (snd (run sample_declarations
        (sample_server 0 promoted_ok status_master_id2) sample_options)))
        = Call_sendAndReceive (cltoma_metadataserverStatus 1) LIZ_MATOCL_METADATASERVER_STATUS
   \<and> fst (run sample_declarations (sample_server 0 promoted_ok status_master_id2) sample_options)
        = Returned"
proof -
  let ?env = "sample_server 0 promoted_ok status_master_id2"
  have h1: "length (arguments sample_options) = 2"
    by (simp add: sample_options_def)
  have h2: "ServerConnection ?env (argument sample_options 0) (argument sample_options 1) = None"
    by (simp add: sample_server_def)
  have h3: "register_master_connection ?env (get_password ?env)
      = Inr (STATUS_OK sample_declarations)"
    by (simp add: sample_server_def sample_declarations_def)
  have h4: "sendAndReceive ?env cltoma_adminBecomeMaster LIZ_MATOCL_ADMIN_BECOME_MASTER
      = Inr promoted_ok"
    by (simp add: sample_server_def)
  have h5: "sendAndReceive ?env (cltoma_metadataserverStatus 1) LIZ_MATOCL_METADATASERVER_STATUS
      = Inr status_master_id2"
    by (simp add: sample_server_def)
  have h6: "deserialize sample_declarations status_master_id2 = Inr (2, 1, 43)"
    by (simp add: sample_declarations_def deserialize_master_id2)
  have m: "(1::8 word) = LIZ_METADATASERVER_STATUS_MASTER sample_declarations"
    by (simp add: sample_declarations_def)
  from role_alone_decides [OF h1 h2 h3 h4 h5 h6] m have
    "last (exchanges (snd (run sample_declarations ?env sample_options)))
        = Call_sendAndReceive (cltoma_metadataserverStatus 1) LIZ_MATOCL_METADATASERVER_STATUS
     \<and> fst (run sample_declarations ?env sample_options) = Returned"
    by simp
  with h1 h2 h3 h4 h5 h6 show ?thesis by blast
qed

text \<open>
  Claim C10: two servers that differ only in the identifier and the metadata version of the
  status answer give the same run: the same outcome, the same error stream and the same calls.
\<close>

theorem status_fields_without_influence:
  assumes "get_password env' = get_password env"
    and "ServerConnection env' = ServerConnection env"
    and "register_master_connection env' = register_master_connection env"
    and "sendAndReceive env' cltoma_adminBecomeMaster LIZ_MATOCL_ADMIN_BECOME_MASTER
           = sendAndReceive env cltoma_adminBecomeMaster LIZ_MATOCL_ADMIN_BECOME_MASTER"
    and "sendAndReceive env (cltoma_metadataserverStatus 1) LIZ_MATOCL_METADATASERVER_STATUS
           = Inr response"
    and "sendAndReceive env' (cltoma_metadataserverStatus 1) LIZ_MATOCL_METADATASERVER_STATUS
           = Inr response'"
    and "deserialize d response = Inr (messageId, status, metadataVersion)"
    and "deserialize d response' = Inr (messageId', status, metadataVersion')"
  shows "run d env' options = run d env options"
  using assms by (simp add: run_def Let_def split: option.split sum.split)

theorem status_fields_without_influence_witness:
  "get_password (sample_server 0 promoted_ok status_master_id2)
      = get_password (sample_server 0 promoted_ok status_master_id1)
   \<and> ServerConnection (sample_server 0 promoted_ok status_master_id2)
      = ServerConnection (sample_server 0 promoted_ok status_master_id1)
   \<and> register_master_connection (sample_server 0 promoted_ok status_master_id2)
      = register_master_connection (sample_server 0 promoted_ok status_master_id1)
   \<and> sendAndReceive (sample_server 0 promoted_ok status_master_id2)
        cltoma_adminBecomeMaster LIZ_MATOCL_ADMIN_BECOME_MASTER
      = sendAndReceive (sample_server 0 promoted_ok status_master_id1)
        cltoma_adminBecomeMaster LIZ_MATOCL_ADMIN_BECOME_MASTER
   \<and> sendAndReceive (sample_server 0 promoted_ok status_master_id1)
        (cltoma_metadataserverStatus 1) LIZ_MATOCL_METADATASERVER_STATUS = Inr status_master_id1
   \<and> sendAndReceive (sample_server 0 promoted_ok status_master_id2)
        (cltoma_metadataserverStatus 1) LIZ_MATOCL_METADATASERVER_STATUS = Inr status_master_id2
   \<and> deserialize sample_declarations status_master_id1 = Inr (1, 1, 42)
   \<and> deserialize sample_declarations status_master_id2 = Inr (2, 1, 43)
   \<and> run sample_declarations (sample_server 0 promoted_ok status_master_id2) sample_options
      = run sample_declarations (sample_server 0 promoted_ok status_master_id1) sample_options"
proof -
  let ?env = "sample_server 0 promoted_ok status_master_id1"
  let ?env' = "sample_server 0 promoted_ok status_master_id2"
  have h1: "get_password ?env' = get_password ?env"
    by (simp add: sample_server_def)
  have h2: "ServerConnection ?env' = ServerConnection ?env"
    by (simp add: sample_server_def)
  have h3: "register_master_connection ?env' = register_master_connection ?env"
    by (simp add: sample_server_def)
  have h4: "sendAndReceive ?env' cltoma_adminBecomeMaster LIZ_MATOCL_ADMIN_BECOME_MASTER
      = sendAndReceive ?env cltoma_adminBecomeMaster LIZ_MATOCL_ADMIN_BECOME_MASTER"
    by (simp add: sample_server_def)
  have h5: "sendAndReceive ?env (cltoma_metadataserverStatus 1) LIZ_MATOCL_METADATASERVER_STATUS
      = Inr status_master_id1"
    by (simp add: sample_server_def)
  have h6: "sendAndReceive ?env' (cltoma_metadataserverStatus 1) LIZ_MATOCL_METADATASERVER_STATUS
      = Inr status_master_id2"
    by (simp add: sample_server_def)
  have h7: "deserialize sample_declarations status_master_id1 = Inr (1, 1, 42)"
    by (simp add: sample_declarations_def deserialize_master_id1)
  have h8: "deserialize sample_declarations status_master_id2 = Inr (2, 1, 43)"
    by (simp add: sample_declarations_def deserialize_master_id2)
  from status_fields_without_influence [OF h1 h2 h3 h4 h5 h6 h7 h8] h1 h2 h3 h4 h5 h6 h7 h8
  show ?thesis by blast
qed

subsection \<open>Arguments and password\<close>

text \<open>
  Claim C7: with a number of arguments other than two, \<^verbatim>\<open>run\<close> throws
  \<^verbatim>\<open>WrongUsageException\<close> before it has read the password, opened a connection or
  written anything; and the command supports no options.
\<close>

theorem wrong_usage:
  assumes "length (arguments options) \<noteq> 2"
  shows "run d env options =
      (Thrown (WrongUsageException ''Expected <shadow ip> and <shadow port> for promote-shadow''),
       \<lparr>cerr = [], calls = []\<rparr>)
    \<and> supportedOptions = []"
  using assms by (simp add: run_def initial_def name_def supportedOptions_def)

theorem wrong_usage_witness:
  "length (arguments \<lparr>arguments = [''10.0.0.5'']\<rparr>) \<noteq> 2
   \<and> run sample_declarations (sample_server 0 promoted_ok status_master_id1)
        \<lparr>arguments = [''10.0.0.5'']\<rparr> =
      (Thrown (WrongUsageException ''Expected <shadow ip> and <shadow port> for promote-shadow''),
       \<lparr>cerr = [], calls = []\<rparr>)
   \<and> supportedOptions = []"
proof -
  have h: "length (arguments \<lparr>arguments = [''10.0.0.5'']\<rparr>) \<noteq> 2"
    by simp
  from wrong_usage [OF h] h show ?thesis by blast
qed

text \<open>
  Claim C8: with two arguments, \<^verbatim>\<open>run\<close> calls \<^verbatim>\<open>get_password\<close> exactly once,
  however it ends.
\<close>

theorem password_read_once:
  assumes "length (arguments options) = 2"
  shows "count_list (calls (snd (run d env options))) Call_get_password = 1"
  using assms
  by (simp add: run_unfold split: option.split sum.split prod.split)

theorem password_read_once_witness:
  "length (arguments sample_options) = 2
   \<and> count_list (calls (snd (run sample_declarations
        (sample_server 0 promoted_ok status_shadow_id1) sample_options))) Call_get_password = 1"
proof -
  have h: "length (arguments sample_options) = 2"
    by (simp add: sample_options_def)
  from password_read_once [OF h] h show ?thesis by blast
qed

end
